theory Spec2Isabelle
  imports Main
begin

section \<open>Daily Task Tracker: the rollover and persistence core of server/index.js\<close>

text \<open>
  The server keeps one JSON document in a file. Every request handler reads the file
  (\<^verbatim>\<open>readTasks\<close>), changes the parsed objects in place and writes the whole document
  back (\<^verbatim>\<open>writeTasks\<close>). \<^verbatim>\<open>checkDailyReset\<close> archives the completed tasks of the day
  that is over and clears the completion fields of every task.

  Modelling decisions.
  \<^item> The file holds a JSON value: a document of task values (\<open>task document\<close>). A file
    that parses has the shape the server writes; any other file counts as unreadable.
  \<^item> In memory, JavaScript arrays hold references to objects. The parsed document is a
    document of references (\<open>ref document\<close>) together with an object store; an
    assignment to a field of a task changes the store, and is seen through every array
    that holds the reference. \<^verbatim>\<open>JSON.parse\<close> allocates a new object for every task it
    reads, \<^verbatim>\<open>JSON.stringify\<close> writes the current fields of every object it reaches.
  \<^item> Body fields are typed as section 6 of the specification types them: strings and
    booleans, \<open>None\<close> for a field that is \<^verbatim>\<open>undefined\<close>. A character of a string is
    the UTF-16 code unit of the same value, 0 to 255; a string with any other code unit
    is outside the type.
  \<^item> The world a handler runs in is the file, the clock and whether the file can be
    written. One handler reads the clock as one instant; the caller advances it between
    requests. A write that fails leaves the file as it was. Logging is left out.
\<close>

subsection \<open>JSON values of the persisted document\<close>

record task =
  id' :: string
  title :: string
  description :: string
  priority :: string
  completed :: bool
  createdAt :: string
  completedAt :: "string option"

record 't historyEntry =
  date :: string
  completedTasks :: "'t list"
  totalTasks :: nat
  completedCount :: nat

record 't document =
  tasks :: "'t list"
  lastReset :: string
  history :: "'t historyEntry list"

subsection \<open>Objects in memory\<close>

type_synonym ref = nat

text \<open>The store lists the task objects; the address of an object is its position.\<close>

type_synonym store = "task list"

definition alloc :: "task list \<Rightarrow> store \<Rightarrow> ref list \<times> store" where
  "alloc ts h = ([length h..<length h + length ts], h @ ts)"

definition deref :: "store \<Rightarrow> ref list \<Rightarrow> task list" where
  "deref h rs = map (\<lambda>r. h ! r) rs"

fun parse_history :: "task historyEntry list \<Rightarrow> store \<Rightarrow> ref historyEntry list \<times> store" where
  "parse_history [] h = ([], h)"
| "parse_history (e # es) h =
     (let (rs, h1) = alloc (completedTasks e) h;
          (es', h2) = parse_history es h1
      in (\<lparr>date = date e, completedTasks = rs, totalTasks = totalTasks e,
            completedCount = completedCount e\<rparr> # es', h2))"

text \<open>\<^verbatim>\<open>JSON.parse(data)\<close>: every task of the text becomes an object of its own.\<close>

definition JSON_parse :: "task document \<Rightarrow> ref document \<times> store" where
  "JSON_parse d =
     (let (rs, h1) = alloc (tasks d) [];
          (es, h2) = parse_history (history d) h1
      in (\<lparr>tasks = rs, lastReset = lastReset d, history = es\<rparr>, h2))"

definition stringify_entry :: "store \<Rightarrow> ref historyEntry \<Rightarrow> task historyEntry" where
  "stringify_entry h e =
     \<lparr>date = date e, completedTasks = deref h (completedTasks e), totalTasks = totalTasks e,
      completedCount = completedCount e\<rparr>"

text \<open>\<^verbatim>\<open>JSON.stringify(data, null, 2)\<close>: the fields the objects have at this moment.\<close>

definition JSON_stringify :: "ref document \<times> store \<Rightarrow> task document" where
  "JSON_stringify m =
     (case m of (data, h) \<Rightarrow>
        \<lparr>tasks = deref h (tasks data), lastReset = lastReset data,
         history = map (stringify_entry h) (history data)\<rparr>)"

subsection \<open>The world of a request\<close>

text \<open>An instant is what \<^verbatim>\<open>new Date()\<close> gives: \<^verbatim>\<open>Date.now()\<close> and \<^verbatim>\<open>toISOString()\<close>.\<close>

record instant =
  epochMs :: nat
  isoString :: string

record world =
  disk :: "task document option"
  now :: instant
  writable :: bool

text \<open>\<^verbatim>\<open>new Date().toISOString().split("T")[0]\<close>\<close>

definition today :: "world \<Rightarrow> string" where
  "today w = takeWhile (\<lambda>c. c \<noteq> CHR ''T'') (isoString (now w))"

text \<open>
  \<^verbatim>\<open>readTasks\<close>: \<open>disk w = None\<close> stands for a file that \<^verbatim>\<open>readFileSync\<close> cannot read or
  \<^verbatim>\<open>JSON.parse\<close> cannot parse; the \<^verbatim>\<open>catch\<close> branch returns a new document.
\<close>

definition readTasks :: "world \<Rightarrow> ref document \<times> store" where
  "readTasks w =
     (case disk w of
        Some d \<Rightarrow> JSON_parse d
      | None \<Rightarrow> (\<lparr>tasks = [], lastReset = today w, history = []\<rparr>, []))"

text \<open>\<^verbatim>\<open>writeTasks\<close>: \<open>True\<close> and the file overwritten, or \<open>False\<close> from the \<^verbatim>\<open>catch\<close> branch.\<close>

definition writeTasks :: "ref document \<times> store \<Rightarrow> world \<Rightarrow> bool \<times> world" where
  "writeTasks m w =
     (if writable w then (True, w\<lparr>disk := Some (JSON_stringify m)\<rparr>) else (False, w))"

subsection \<open>The daily reset\<close>

text \<open>The body of the \<^verbatim>\<open>forEach\<close>: \<^verbatim>\<open>task.completed = false; task.completedAt = null\<close>.\<close>

definition clearCompletion :: "task \<Rightarrow> task" where
  "clearCompletion t = t\<lparr>completed := False, completedAt := None\<rparr>"

text \<open>
  \<^verbatim>\<open>checkDailyReset\<close>. \<open>cs\<close> is the array \<^verbatim>\<open>completedTasks\<close> that \<^verbatim>\<open>filter\<close> returns: a
  new array of the same object references. The result of \<^verbatim>\<open>writeTasks\<close> is not looked at.
\<close>

definition checkDailyReset :: "world \<Rightarrow> bool \<times> world" where
  "checkDailyReset w =
     (let (data, h) = readTasks w in
      if lastReset data \<noteq> today w then
        (let data1 =
               (if length (tasks data) > 0 then
                  (let cs = filter (\<lambda>r. completed (h ! r)) (tasks data) in
                   if length cs > 0
                   then data\<lparr>history := history data @
                          [\<lparr>date = lastReset data, completedTasks = cs,
                            totalTasks = length (tasks data), completedCount = length cs\<rparr>]\<rparr>
                   else data)
                else data);
             h1 = fold (\<lambda>r s. s[r := clearCompletion (s ! r)]) (tasks data) h;
             data2 = data1\<lparr>lastReset := today w\<rparr>;
             (_, w1) = writeTasks (data2, h1) w
         in (True, w1))
      else (False, w))"

subsection \<open>Requests and responses\<close>

text \<open>A response is the status code and the JSON body; \<^verbatim>\<open>res.json\<close> alone answers 200.\<close>

datatype body =
    TaskList "task list" string string
  | TaskJson task
  | Message string
  | Error string

type_synonym response = "nat \<times> body"

text \<open>The body of a POST: \<^verbatim>\<open>{ title, description, priority }\<close>, each one possibly undefined.\<close>

record createBody =
  title_in :: "string option"
  description_in :: "string option"
  priority_in :: "string option"

text \<open>The body of a PUT: \<^verbatim>\<open>{ completed, title, description, priority }\<close>.\<close>

record updateBody =
  completed_up :: "bool option"
  title_up :: "string option"
  description_up :: "string option"
  priority_up :: "string option"

text \<open>
  \<^verbatim>\<open>String.prototype.trim\<close> removes white space and line terminators at both ends. Of
  the code units 0 to 255 these are tab (U+0009), line feed (U+000A), vertical tab
  (U+000B), form feed (U+000C), carriage return (U+000D), space (U+0020) and the
  no-break space (U+00A0); the others that ECMAScript lists (U+1680, U+2000 to U+200A,
  U+2028, U+2029, U+202F, U+205F, U+3000, U+FEFF) lie above 255.
\<close>

definition isWhiteSpace :: "char \<Rightarrow> bool" where
  "isWhiteSpace c \<longleftrightarrow>
     c = CHR 0x09 \<or> c = CHR 0x0A \<or> c = CHR 0x0B \<or> c = CHR 0x0C \<or> c = CHR 0x0D \<or>
     c = CHR 0x20 \<or> c = CHR 0xA0"

definition trim :: "string \<Rightarrow> string" where
  "trim s = rev (dropWhile isWhiteSpace (rev (dropWhile isWhiteSpace s)))"

text \<open>\<^verbatim>\<open>Date.now().toString()\<close>: the decimal digits of the millisecond count.\<close>

fun toString :: "nat \<Rightarrow> string" where
  "toString n =
     (if n < 10 then [''0123456789'' ! n]
      else toString (n div 10) @ [''0123456789'' ! (n mod 10)])"

declare toString.simps [simp del]

text \<open>\<^verbatim>\<open>Array.prototype.findIndex\<close>; \<open>None\<close> stands for the result -1.\<close>

fun findIndex :: "('a \<Rightarrow> bool) \<Rightarrow> 'a list \<Rightarrow> nat option" where
  "findIndex P [] = None"
| "findIndex P (x # xs) = (if P x then Some 0 else map_option Suc (findIndex P xs))"

subsection \<open>The handlers\<close>

text \<open>\<^verbatim>\<open>GET /api/tasks\<close>\<close>

definition get_tasks :: "world \<Rightarrow> response \<times> world" where
  "get_tasks w =
     (let (_, w1) = checkDailyReset w;
          (data, h) = readTasks w1
      in ((200, TaskList (deref h (tasks data)) (lastReset data) (today w1)), w1))"

text \<open>\<^verbatim>\<open>POST /api/tasks\<close>. \<^verbatim>\<open>!title\<close> holds for an undefined and for an empty title.\<close>

definition post_tasks :: "createBody \<Rightarrow> world \<Rightarrow> response \<times> world" where
  "post_tasks b w =
     (let prio = (case priority_in b of None \<Rightarrow> ''medium'' | Some p \<Rightarrow> p) in
      if (case title_in b of None \<Rightarrow> True | Some t \<Rightarrow> t = [] \<or> trim t = [])
      then ((400, Error ''Task title is required''), w)
      else
        (let (_, w1) = checkDailyReset w;
             (data, h) = readTasks w1;
             newTask =
               \<lparr>id' = toString (epochMs (now w1)),
                title = trim (the (title_in b)),
                description =
                  (case description_in b of
                     None \<Rightarrow> []
                   | Some s \<Rightarrow> if s = [] then [] else trim s),
                priority = prio,
                completed = False,
                createdAt = isoString (now w1),
                completedAt = None\<rparr>;
             (rs, h1) = alloc [newTask] h;
             data1 = data\<lparr>tasks := tasks data @ rs\<rparr>;
             (ok, w2) = writeTasks (data1, h1) w1
         in if ok then ((201, TaskJson newTask), w2)
            else ((500, Error ''Failed to save task''), w2)))"

text \<open>\<^verbatim>\<open>PUT /api/tasks/:id\<close>. \<open>r\<close> is the object \<^verbatim>\<open>data.tasks[taskIndex]\<close>.\<close>

definition put_task :: "string \<Rightarrow> updateBody \<Rightarrow> world \<Rightarrow> response \<times> world" where
  "put_task i b w =
     (let (data, h) = readTasks w in
      case findIndex (\<lambda>r. id' (h ! r) = i) (tasks data) of
        None \<Rightarrow> ((404, Error ''Task not found''), w)
      | Some taskIndex \<Rightarrow>
          (let r = tasks data ! taskIndex;
               h1 = (case completed_up b of
                       None \<Rightarrow> h
                     | Some c \<Rightarrow>
                         h[r := (h ! r)\<lparr>completed := c,
                                 completedAt := (if c then Some (isoString (now w)) else None)\<rparr>]);
               h2 = (case title_up b of
                       None \<Rightarrow> h1
                     | Some t \<Rightarrow> h1[r := (h1 ! r)\<lparr>title := trim t\<rparr>]);
               h3 = (case description_up b of
                       None \<Rightarrow> h2
                     | Some s \<Rightarrow> h2[r := (h2 ! r)\<lparr>description := trim s\<rparr>]);
               h4 = (case priority_up b of
                       None \<Rightarrow> h3
                     | Some p \<Rightarrow> h3[r := (h3 ! r)\<lparr>priority := p\<rparr>]);
               (ok, w1) = writeTasks (data, h4) w
           in if ok then ((200, TaskJson (h4 ! r)), w1)
              else ((500, Error ''Failed to update task''), w1)))"

text \<open>\<^verbatim>\<open>DELETE /api/tasks/:id\<close>; \<^verbatim>\<open>splice(taskIndex, 1)\<close> removes one element.\<close>

definition delete_task :: "string \<Rightarrow> world \<Rightarrow> response \<times> world" where
  "delete_task i w =
     (let (data, h) = readTasks w in
      case findIndex (\<lambda>r. id' (h ! r) = i) (tasks data) of
        None \<Rightarrow> ((404, Error ''Task not found''), w)
      | Some taskIndex \<Rightarrow>
          (let data1 = data\<lparr>tasks := take taskIndex (tasks data) @ drop (Suc taskIndex) (tasks data)\<rparr>;
               (ok, w1) = writeTasks (data1, h) w
           in if ok then ((200, Message ''Task deleted successfully''), w1)
              else ((500, Error ''Failed to delete task''), w1)))"

text \<open>The document a handler finds when it reads the file.\<close>

definition stored :: "world \<Rightarrow> task document" where
  "stored w = JSON_stringify (readTasks w)"

subsection \<open>Example documents and requests\<close>

text \<open>
  The document of section 8 of the specification: two tasks on 2024-01-01, the first one
  completed, and the clock on the evening of that day or on the next morning.
\<close>

definition task1 :: task where
  "task1 = \<lparr>id' = ''1'', title = ''Water plants'', description = [], priority = ''medium'',
            completed = True, createdAt = ''2024-01-01T09:00:00.000Z'',
            completedAt = Some ''2024-01-01T18:30:00.000Z''\<rparr>"

definition task2 :: task where
  "task2 = \<lparr>id' = ''2'', title = ''Call bank'', description = ''before noon'', priority = ''high'',
            completed = False, createdAt = ''2024-01-01T09:05:00.000Z'', completedAt = None\<rparr>"

definition dayOne :: "task document" where
  "dayOne = \<lparr>tasks = [task1, task2], lastReset = ''2024-01-01'', history = []\<rparr>"

definition quietDay :: "task document" where
  "quietDay = \<lparr>tasks = [task2], lastReset = ''2024-01-01'', history = []\<rparr>"

definition firstEvening :: instant where
  "firstEvening = \<lparr>epochMs = 1704128400000, isoString = ''2024-01-01T17:00:00.000Z''\<rparr>"

definition nextMorning :: instant where
  "nextMorning = \<lparr>epochMs = 1704182400000, isoString = ''2024-01-02T08:00:00.000Z''\<rparr>"

definition nextNoon :: instant where
  "nextNoon = \<lparr>epochMs = 1704196800000, isoString = ''2024-01-02T12:00:00.000Z''\<rparr>"

definition sameDayWorld :: world where
  "sameDayWorld = \<lparr>disk = Some dayOne, now = firstEvening, writable = True\<rparr>"

definition staleWorld :: world where
  "staleWorld = \<lparr>disk = Some dayOne, now = nextMorning, writable = True\<rparr>"

definition quietWorld :: world where
  "quietWorld = \<lparr>disk = Some quietDay, now = nextMorning, writable = True\<rparr>"

definition readOnlyWorld :: world where
  "readOnlyWorld = \<lparr>disk = Some dayOne, now = nextMorning, writable = False\<rparr>"

definition emptyWorld :: world where
  "emptyWorld = \<lparr>disk = Some \<lparr>tasks = [], lastReset = ''2024-01-02'', history = []\<rparr>,
                  now = nextMorning, writable = True\<rparr>"

definition noFileWorld :: world where
  "noFileWorld = \<lparr>disk = None, now = nextMorning, writable = True\<rparr>"

definition renameBody :: updateBody where
  "renameBody = \<lparr>completed_up = None, title_up = Some ''Water the plants'',
                 description_up = None, priority_up = None\<rparr>"

definition blankTitleBody :: updateBody where
  "blankTitleBody = \<lparr>completed_up = None, title_up = Some ''   '',
                     description_up = None, priority_up = None\<rparr>"

definition milkBody :: createBody where
  "milkBody = \<lparr>title_in = Some '' Buy milk '', description_in = None, priority_in = None\<rparr>"

definition breadBody :: createBody where
  "breadBody = \<lparr>title_in = Some ''Buy bread'', description_in = Some ''rye'',
                priority_in = Some ''low''\<rparr>"

definition milkTask :: task where
  "milkTask = \<lparr>id' = ''1704182400000'', title = ''Buy milk'', description = [],
               priority = ''medium'', completed = False,
               createdAt = ''2024-01-02T08:00:00.000Z'', completedAt = None\<rparr>"

definition breadTask :: task where
  "breadTask = \<lparr>id' = ''1704182400000'', title = ''Buy bread'', description = ''rye'',
                priority = ''low'', completed = False,
                createdAt = ''2024-01-02T08:00:00.000Z'', completedAt = None\<rparr>"

text \<open>The file after the creation of \<open>milkTask\<close>, within the same millisecond.\<close>

definition milkWorld :: world where
  "milkWorld = \<lparr>disk = Some \<lparr>tasks = [milkTask], lastReset = ''2024-01-02'', history = []\<rparr>,
                 now = nextMorning, writable = True\<rparr>"

section \<open>The object store\<close>

lemma nth_window: "map ((!) (xs @ ys @ zs)) [length xs..<length xs + length ys] = ys"
  by (rule nth_equalityI) (auto simp: nth_append)

lemma deref_window: "deref (xs @ ys @ zs) [length xs..<length xs + length ys] = ys"
  unfolding deref_def by (rule nth_window)

lemma deref_prefix: "deref (xs @ ys) [0..<length xs] = xs"
  using deref_window [of "[]" xs ys] by simp

lemma deref_append: "deref h (xs @ ys) = deref h xs @ deref h ys"
  by (simp add: deref_def)

lemma parse_history_store: "snd (parse_history es h) = h @ concat (map completedTasks es)"
  by (induction es arbitrary: h) (simp_all add: alloc_def split_beta)

text \<open>The parsed history entries point behind the store they were allocated after, so
  they read the same whatever the objects before them and after them hold.\<close>

lemma parse_history_stringify:
  "length g = length h \<Longrightarrow>
   map (stringify_entry (g @ concat (map completedTasks es) @ k)) (fst (parse_history es h)) = es"
proof (induction es arbitrary: h g k)
  case Nil
  then show ?case by simp
next
  case (Cons e es)
  have hd: "deref (g @ completedTasks e @ concat (map completedTasks es) @ k)
              [length h..<length h + length (completedTasks e)] = completedTasks e"
    using deref_window [of g "completedTasks e" "concat (map completedTasks es) @ k"] Cons.prems
    by simp
  have tl: "map (stringify_entry ((g @ completedTasks e) @ concat (map completedTasks es) @ k))
              (fst (parse_history es (h @ completedTasks e))) = es"
    by (rule Cons.IH) (simp add: Cons.prems)
  have e: "stringify_entry (g @ completedTasks e @ concat (map completedTasks es) @ k)
             \<lparr>date = date e, completedTasks = [length h..<length h + length (completedTasks e)],
              totalTasks = totalTasks e, completedCount = completedCount e\<rparr> = e"
    by (simp add: stringify_entry_def hd)
  show ?case using e tl
    by (simp add: alloc_def split_beta)
qed

lemma stringify_history_parsed:
  "length g = length ts \<Longrightarrow>
   map (stringify_entry (g @ concat (map completedTasks es))) (fst (parse_history es ts)) = es"
  using parse_history_stringify [of g ts es "[]"] by simp

lemma JSON_parse_eq:
  "JSON_parse d =
     (\<lparr>tasks = [0..<length (tasks d)], lastReset = lastReset d,
       history = fst (parse_history (history d) (tasks d))\<rparr>,
      tasks d @ concat (map completedTasks (history d)))"
  using parse_history_store [of "history d" "tasks d"]
  by (simp add: JSON_parse_def alloc_def split_beta)

lemma JSON_roundtrip: "JSON_stringify (JSON_parse d) = d"
  by (simp add: JSON_parse_eq JSON_stringify_def deref_prefix stringify_history_parsed)

text \<open>The \<^verbatim>\<open>forEach\<close> over the task references rewrites exactly the task objects.\<close>

lemma fold_update_prefix:
  "n \<le> length s \<Longrightarrow>
   fold (\<lambda>r s. s[r := f (s ! r)]) [0..<n] s = map f (take n s) @ drop n s"
proof (induction n)
  case 0
  then show ?case by simp
next
  case (Suc n)
  then have n: "n < length s" by simp
  have "fold (\<lambda>r s. s[r := f (s ! r)]) [0..<Suc n] s
        = (map f (take n s) @ drop n s)[n := f ((map f (take n s) @ drop n s) ! n)]"
    using Suc by simp
  also have "\<dots> = map f (take (Suc n) s) @ drop (Suc n) s"
    using n
    by (simp add: list_update_append nth_append take_Suc_conv_app_nth Cons_nth_drop_Suc [symmetric])
  finally show ?case .
qed

lemma fold_update_append:
  "fold (\<lambda>r s. s[r := f (s ! r)]) [0..<length xs] (xs @ ys) = map f xs @ ys"
  using fold_update_prefix [of "length xs" "xs @ ys" f] by simp

text \<open>The array that \<^verbatim>\<open>filter\<close> built before the \<^verbatim>\<open>forEach\<close>, read after it.\<close>

lemma filter_refs:
  "map ((!) (map f xs @ zs)) (filter (\<lambda>r. P ((xs @ ys) ! r)) [0..<length xs]) = map f (filter P xs)"
proof -
  have a: "filter (\<lambda>r. P ((xs @ ys) ! r)) [0..<length xs] = filter (P \<circ> (!) xs) [0..<length xs]"
    by (rule filter_cong) (auto simp: nth_append)
  have b: "map ((!) (map f xs @ zs)) (filter (P \<circ> (!) xs) [0..<length xs])
           = map (f \<circ> (!) xs) (filter (P \<circ> (!) xs) [0..<length xs])"
    by (rule map_cong) (auto simp: nth_append)
  have c: "map (f \<circ> (!) xs) (filter (P \<circ> (!) xs) [0..<length xs])
           = map f (filter P (map ((!) xs) [0..<length xs]))"
    by (simp add: filter_map)
  show ?thesis by (simp add: a b c map_nth)
qed

lemma filter_refs_length:
  "length (filter (\<lambda>r. P ((xs @ ys) ! r)) [0..<length xs]) = length (filter P xs)"
proof -
  have "length (map ((!) (map id xs @ [])) (filter (\<lambda>r. P ((xs @ ys) ! r)) [0..<length xs]))
        = length (map id (filter P xs))"
    by (simp only: filter_refs)
  then show ?thesis by simp
qed

section \<open>What a handler reads and what the reset writes\<close>

lemma stored_eq:
  "stored w = (case disk w of Some d \<Rightarrow> d
               | None \<Rightarrow> \<lparr>tasks = [], lastReset = today w, history = []\<rparr>)"
proof (cases "disk w")
  case None
  then show ?thesis by (simp add: stored_def readTasks_def JSON_stringify_def deref_def)
next
  case (Some d)
  then show ?thesis by (simp add: stored_def readTasks_def JSON_roundtrip)
qed

lemma stored_Some: "disk w = Some d \<Longrightarrow> stored w = d"
  by (simp add: stored_eq)

lemma lastReset_readTasks: "lastReset (fst (readTasks w)) = lastReset (stored w)"
  by (simp add: stored_def JSON_stringify_def split_beta)

lemma stale_disk: "lastReset (stored w) \<noteq> today w \<Longrightarrow> disk w = Some (stored w)"
  by (cases "disk w") (simp_all add: stored_eq)

lemma checkDailyReset_frame:
  "now (snd (checkDailyReset w)) = now w \<and> writable (snd (checkDailyReset w)) = writable w"
  by (simp add: checkDailyReset_def writeTasks_def split_beta Let_def)

lemma checkDailyReset_same_day:
  "lastReset (stored w) = today w \<Longrightarrow> checkDailyReset w = (False, w)"
  by (simp add: checkDailyReset_def split_beta lastReset_readTasks)

text \<open>The file after a reset that is due, as a value: every task object is cleared, and the
  archived array holds the same objects, so it is written with their cleared fields.\<close>

lemma checkDailyReset_stale:
  assumes "lastReset (stored w) \<noteq> today w"
  shows "checkDailyReset w =
     (True,
      if writable w then
        w\<lparr>disk := Some
            \<lparr>tasks = map clearCompletion (tasks (stored w)),
             lastReset = today w,
             history = history (stored w) @
               (if filter completed (tasks (stored w)) = [] then []
                else [\<lparr>date = lastReset (stored w),
                       completedTasks = map clearCompletion (filter completed (tasks (stored w))),
                       totalTasks = length (tasks (stored w)),
                       completedCount = length (filter completed (tasks (stored w)))\<rparr>])\<rparr>\<rparr>
      else w)"
proof -
  define d where "d = stored w"
  define ts where "ts = tasks d"
  define hs where "hs = concat (map completedTasks (history d))"
  have dk: "disk w = Some d" using assms stale_disk d_def by simp
  have rd: "readTasks w =
     (\<lparr>tasks = [0..<length ts], lastReset = lastReset d,
       history = fst (parse_history (history d) ts)\<rparr>, ts @ hs)"
    by (simp add: readTasks_def dk JSON_parse_eq ts_def hs_def)
  have fl: "fold (\<lambda>r s. s[r := clearCompletion (s ! r)]) [0..<length ts] (ts @ hs)
            = map clearCompletion ts @ hs"
    by (rule fold_update_append)
  have ne: "lastReset d \<noteq> today w" using assms d_def by simp
  have old: "map (stringify_entry (map clearCompletion ts @ hs)) (fst (parse_history (history d) ts))
             = history d"
    unfolding hs_def by (rule stringify_history_parsed) simp
  have cs: "deref (map clearCompletion ts @ hs) (filter (\<lambda>r. completed ((ts @ hs) ! r)) [0..<length ts])
            = map clearCompletion (filter completed ts)"
    unfolding deref_def by (rule filter_refs)
  have csl: "length (filter (\<lambda>r. completed ((ts @ hs) ! r)) [0..<length ts])
             = length (filter completed ts)"
    by (rule filter_refs_length)
  have tk: "deref (map clearCompletion ts @ hs) [0..<length ts] = map clearCompletion ts"
    using deref_prefix [of "map clearCompletion ts" hs] by simp
  have cse: "(filter (\<lambda>r. completed ((ts @ hs) ! r)) [0..<length ts] = [])
             = (filter completed ts = [])"
    using csl by (metis length_0_conv)
  have old0: "ts = [] \<Longrightarrow>
              map (stringify_entry hs) (fst (parse_history (history d) [])) = history d"
    using old by simp
  show ?thesis
    unfolding d_def [symmetric] ts_def [symmetric]
    by (simp add: checkDailyReset_def rd ne fl Let_def writeTasks_def JSON_stringify_def
        old old0 cs csl cse tk stringify_entry_def deref_def [of _ "[]"])
qed

text \<open>The file after \<^verbatim>\<open>data.tasks.push(newTask)\<close> and a write.\<close>

lemma stringify_push:
  "JSON_stringify
     (fst (readTasks w)\<lparr>tasks := tasks (fst (readTasks w)) @ [length (snd (readTasks w))]\<rparr>,
      snd (readTasks w) @ [nt])
   = (stored w)\<lparr>tasks := tasks (stored w) @ [nt]\<rparr>"
proof (cases "disk w")
  case None
  then show ?thesis
    by (simp add: stored_eq readTasks_def JSON_stringify_def deref_def)
next
  case (Some d)
  define ts where "ts = tasks d"
  define hs where "hs = concat (map completedTasks (history d))"
  have a: "deref (ts @ hs @ [nt]) [0..<length ts] = ts"
    using deref_prefix [of ts "hs @ [nt]"] by simp
  have b: "map (stringify_entry (ts @ hs @ [nt])) (fst (parse_history (history d) ts)) = history d"
    unfolding hs_def by (rule parse_history_stringify) simp
  have c: "deref (ts @ hs @ [nt]) [length ts + length hs] = [nt]"
    by (simp add: deref_def nth_append)
  show ?thesis
    using Some a b c
    by (simp add: stored_eq readTasks_def JSON_parse_eq JSON_stringify_def deref_append
        ts_def [symmetric] hs_def [symmetric])
qed

text \<open>The no-break space is trimmed, so a title made of it is blank.\<close>

lemma trim_no_break_space: "trim [CHR 0xA0] = []"
  by (simp add: trim_def isWhiteSpace_def)

lemma trim_Nil: "trim [] = []"
  by (simp add: trim_def)

text \<open>The creation handler answers 400 to a missing or blank title before it reads the
  clock or the file; nothing is written.\<close>

lemma post_tasks_blank_title:
  "(case title_in b of None \<Rightarrow> True | Some t \<Rightarrow> trim t = []) \<Longrightarrow>
   post_tasks b w = ((400, Error ''Task title is required''), w)"
  by (auto simp: post_tasks_def split: option.splits)

lemma post_tasks_no_break_space:
  "post_tasks \<lparr>title_in = Some [CHR 0xA0], description_in = None, priority_in = None\<rparr> w
     = ((400, Error ''Task title is required''), w)"
  by (rule post_tasks_blank_title) (simp add: trim_no_break_space)

text \<open>A reset that is due and cannot be saved still answers \<open>True\<close>.\<close>

lemma checkDailyReset_unsaved:
  "lastReset (stored w) \<noteq> today w \<Longrightarrow> \<not> writable w \<Longrightarrow> checkDailyReset w = (True, w)"
  by (simp add: checkDailyReset_stale)

section \<open>The example worlds\<close>

lemmas example_defs = sameDayWorld_def staleWorld_def quietWorld_def readOnlyWorld_def
  emptyWorld_def noFileWorld_def firstEvening_def nextMorning_def nextNoon_def
  dayOne_def quietDay_def task1_def task2_def

lemmas eval_defs = checkDailyReset_def readTasks_def JSON_parse_def alloc_def Let_def
  writeTasks_def JSON_stringify_def stringify_entry_def deref_def clearCompletion_def
  today_def put_task_def delete_task_def get_tasks_def post_tasks_def trim_def isWhiteSpace_def

lemma toString_nextMorning: "toString 1704182400000 = ''1704182400000''"
  by (simp add: toString.simps)

lemma today_examples:
  "today sameDayWorld = ''2024-01-01''"
  "today staleWorld = ''2024-01-02''"
  "today quietWorld = ''2024-01-02''"
  "today noFileWorld = ''2024-01-02''"
  "today (staleWorld\<lparr>now := nextNoon\<rparr>) = ''2024-01-02''"
  by (simp_all add: today_def example_defs)

lemma disk_examples:
  "disk sameDayWorld = Some dayOne"
  "disk staleWorld = Some dayOne"
  "disk quietWorld = Some quietDay"
  "disk noFileWorld = None"
  by (simp_all add: example_defs)

lemma writable_examples:
  "writable sameDayWorld" "writable staleWorld" "writable quietWorld" "writable emptyWorld"
  by (simp_all add: example_defs)

lemma document_examples:
  "lastReset dayOne = ''2024-01-01''" "tasks dayOne = [task1, task2]" "history dayOne = []"
  "lastReset quietDay = ''2024-01-01''" "tasks quietDay = [task2]" "history quietDay = []"
  "completed task1" "\<not> completed task2"
  by (simp_all add: dayOne_def quietDay_def task1_def task2_def)

lemma milk_facts:
  "title_in milkBody = Some '' Buy milk ''" "description_in milkBody = None"
  "priority_in milkBody = None" "trim '' Buy milk '' = ''Buy milk''"
  "title_in breadBody = Some ''Buy bread''" "description_in breadBody = Some ''rye''"
  "priority_in breadBody = Some ''low''" "trim ''Buy bread'' = ''Buy bread''"
  "trim ''rye'' = ''rye''"
  by (simp_all add: milkBody_def breadBody_def trim_def isWhiteSpace_def)

lemma stale_facts:
  "stored staleWorld = dayOne" "now staleWorld = nextMorning" "writable staleWorld"
  "checkDailyReset staleWorld =
     (True,
      staleWorld\<lparr>disk := Some
        \<lparr>tasks = [task1\<lparr>completed := False, completedAt := None\<rparr>, task2],
         lastReset = ''2024-01-02'',
         history =
           [\<lparr>date = ''2024-01-01'',
             completedTasks = [task1\<lparr>completed := False, completedAt := None\<rparr>],
             totalTasks = 2, completedCount = 1\<rparr>]\<rparr>\<rparr>)"
     apply (simp add: stored_eq staleWorld_def)
    apply (simp add: staleWorld_def)
   apply (simp add: staleWorld_def)
  apply (simp add: eval_defs example_defs)
  done

lemma milkWorld_facts:
  "stored milkWorld = \<lparr>tasks = [milkTask], lastReset = ''2024-01-02'', history = []\<rparr>"
  "now milkWorld = nextMorning" "writable milkWorld" "today milkWorld = ''2024-01-02''"
  "checkDailyReset milkWorld = (False, milkWorld)"
proof -
  show s: "stored milkWorld = \<lparr>tasks = [milkTask], lastReset = ''2024-01-02'', history = []\<rparr>"
    by (simp add: stored_eq milkWorld_def)
  show "now milkWorld = nextMorning" "writable milkWorld" by (simp_all add: milkWorld_def)
  show t: "today milkWorld = ''2024-01-02''" by (simp add: today_def milkWorld_def nextMorning_def)
  show "checkDailyReset milkWorld = (False, milkWorld)"
    by (rule checkDailyReset_same_day) (simp add: s t)
qed

lemma instant_facts:
  "epochMs nextMorning = 1704182400000" "isoString nextMorning = ''2024-01-02T08:00:00.000Z''"
  by (simp_all add: nextMorning_def)

section \<open>The claims\<close>

text \<open>
  C1. A rollover with a completed task should append a history entry that holds the
  completed tasks as they were at that moment, each one still with \<open>completed = True\<close>
  and its \<open>completedAt\<close>. The code pushes the array of the live task objects and then
  clears those same objects, so the entry is written with \<open>completed = False\<close> and no
  \<open>completedAt\<close>: on the example document the task 1, completed on 2024-01-01 at 18:30, is
  archived as not completed.
\<close>

theorem snapshot_holds_reset_objects:
  "checkDailyReset staleWorld =
     (True,
      staleWorld\<lparr>disk := Some
        \<lparr>tasks = [task1\<lparr>completed := False, completedAt := None\<rparr>, task2],
         lastReset = ''2024-01-02'',
         history =
           [\<lparr>date = ''2024-01-01'',
             completedTasks = [task1\<lparr>completed := False, completedAt := None\<rparr>],
             totalTasks = 2, completedCount = 1\<rparr>]\<rparr>\<rparr>)"
  by (simp add: eval_defs example_defs)

text \<open>
  C2. List, create, update and delete should all run the rollover check first. The update
  and the delete handler do not: on the morning of 2024-01-02 an update of task 1 answers
  with the task still completed from 2024-01-01 and leaves \<open>lastReset\<close> and the history as
  they were, which is not what the same update gives after the check; the delete does the
  same.
\<close>

theorem update_and_delete_skip_rollover:
  "put_task ''1'' renameBody staleWorld =
     ((200, TaskJson (task1\<lparr>title := ''Water the plants''\<rparr>)),
      staleWorld\<lparr>disk := Some
        \<lparr>tasks = [task1\<lparr>title := ''Water the plants''\<rparr>, task2],
         lastReset = ''2024-01-01'', history = []\<rparr>\<rparr>)
   \<and> completed (task1\<lparr>title := ''Water the plants''\<rparr>)
   \<and> today staleWorld = ''2024-01-02''
   \<and> put_task ''1'' renameBody staleWorld
       \<noteq> put_task ''1'' renameBody (snd (checkDailyReset staleWorld))
   \<and> delete_task ''2'' staleWorld =
     ((200, Message ''Task deleted successfully''),
      staleWorld\<lparr>disk := Some \<lparr>tasks = [task1], lastReset = ''2024-01-01'', history = []\<rparr>\<rparr>)"
  by (simp add: eval_defs example_defs renameBody_def)

text \<open>
  C3. The rollover check is idempotent within a day. When the stored \<open>lastReset\<close> is today
  the check answers \<open>False\<close> and leaves the world, and so the file, exactly as it was. After
  a check whose save went through, a second check at any instant of the same day, whether
  or not the file can then be written, is such a no-op.
\<close>

theorem rollover_check_idempotent:
  "(disk w = Some d \<and> lastReset d = today w \<longrightarrow> checkDailyReset w = (False, w)) \<and>
   (writable w \<and> today (w\<lparr>now := t\<rparr>) = today w \<longrightarrow>
      checkDailyReset ((snd (checkDailyReset w))\<lparr>now := t, writable := b\<rparr>)
        = (False, (snd (checkDailyReset w))\<lparr>now := t, writable := b\<rparr>))"
proof (intro conjI impI)
  assume "disk w = Some d \<and> lastReset d = today w"
  then show "checkDailyReset w = (False, w)"
    by (simp add: checkDailyReset_same_day stored_Some)
next
  assume a: "writable w \<and> today (w\<lparr>now := t\<rparr>) = today w"
  define w1 where "w1 = snd (checkDailyReset w)"
  have t: "today (w1\<lparr>now := t, writable := b\<rparr>) = today w"
    using a by (simp add: today_def)
  have "lastReset (stored (w1\<lparr>now := t, writable := b\<rparr>)) = today w"
  proof (cases "lastReset (stored w) = today w")
    case True
    then have "w1 = w" by (simp add: w1_def checkDailyReset_same_day)
    then show ?thesis using True a
      by (cases "disk w") (simp_all add: stored_eq today_def)
  next
    case False
    then show ?thesis using a
      by (simp add: w1_def checkDailyReset_stale stored_eq)
  qed
  then show "checkDailyReset (snd (checkDailyReset w)\<lparr>now := t, writable := b\<rparr>)
        = (False, snd (checkDailyReset w)\<lparr>now := t, writable := b\<rparr>)"
    using t checkDailyReset_same_day [of "w1\<lparr>now := t, writable := b\<rparr>"]
    by (simp add: w1_def)
qed

text \<open>The check on the evening of 2024-01-01, and twice on 2024-01-02.\<close>

theorem rollover_check_idempotent_witness:
  "disk sameDayWorld = Some dayOne \<and> lastReset dayOne = today sameDayWorld \<and>
   checkDailyReset sameDayWorld = (False, sameDayWorld) \<and>
   writable staleWorld \<and> today (staleWorld\<lparr>now := nextNoon\<rparr>) = today staleWorld \<and>
   checkDailyReset ((snd (checkDailyReset staleWorld))\<lparr>now := nextNoon, writable := False\<rparr>)
     = (False, (snd (checkDailyReset staleWorld))\<lparr>now := nextNoon, writable := False\<rparr>)"
  using rollover_check_idempotent [where w = sameDayWorld and d = dayOne and t = nextNoon and b = False]
    rollover_check_idempotent [where w = staleWorld and d = dayOne and t = nextNoon and b = False]
  by (simp add: today_examples disk_examples writable_examples document_examples)

text \<open>
  C4. When \<open>lastReset\<close> is not today and at least one task is completed, the check appends
  exactly one history entry, dated with the old \<open>lastReset\<close>, with the number of tasks and
  of completed tasks before the reset, and sets \<open>lastReset\<close> to today. Nothing is asked of
  the distance between the two dates.
\<close>

theorem rollover_archives_one_entry:
  assumes "disk w = Some d" and "lastReset d \<noteq> today w"
    and "\<exists>t \<in> set (tasks d). completed t" and "writable w"
  shows "\<exists>d' e. checkDailyReset w = (True, w\<lparr>disk := Some d'\<rparr>) \<and>
           history d' = history d @ [e] \<and>
           date e = lastReset d \<and>
           totalTasks e = length (tasks d) \<and>
           completedCount e = length (filter completed (tasks d)) \<and>
           lastReset d' = today w"
proof -
  have s: "stored w = d" using assms(1) by (rule stored_Some)
  have ne: "filter completed (tasks d) \<noteq> []"
    using assms(3) by (simp add: filter_empty_conv)
  define e where "e = \<lparr>date = lastReset d,
      completedTasks = map clearCompletion (filter completed (tasks d)),
      totalTasks = length (tasks d),
      completedCount = length (filter completed (tasks d))\<rparr>"
  define d' where "d' = \<lparr>tasks = map clearCompletion (tasks d), lastReset = today w,
      history = history d @ [e]\<rparr>"
  have "checkDailyReset w = (True, w\<lparr>disk := Some d'\<rparr>)"
    using checkDailyReset_stale [of w] assms(2,4) ne by (simp add: s d'_def e_def)
  then show ?thesis
    by (intro exI [of _ d'] exI [of _ e]) (simp add: d'_def e_def)
qed

theorem rollover_archives_one_entry_witness:
  "disk staleWorld = Some dayOne \<and> lastReset dayOne \<noteq> today staleWorld \<and>
   (\<exists>t \<in> set (tasks dayOne). completed t) \<and> writable staleWorld \<and>
   (\<exists>d' e. checkDailyReset staleWorld = (True, staleWorld\<lparr>disk := Some d'\<rparr>) \<and>
      history d' = history dayOne @ [e] \<and>
      date e = lastReset dayOne \<and>
      totalTasks e = length (tasks dayOne) \<and>
      completedCount e = length (filter completed (tasks dayOne)) \<and>
      lastReset d' = today staleWorld)"
  using rollover_archives_one_entry [where w = staleWorld and d = dayOne]
  by (simp add: today_examples disk_examples writable_examples document_examples)

text \<open>
  C5. When \<open>lastReset\<close> is not today and no task is completed, the check sets \<open>lastReset\<close>
  to today and leaves the history as it was.
\<close>

theorem rollover_without_completed_tasks:
  assumes "disk w = Some d" and "lastReset d \<noteq> today w"
    and "\<forall>t \<in> set (tasks d). \<not> completed t" and "writable w"
  shows "\<exists>d'. checkDailyReset w = (True, w\<lparr>disk := Some d'\<rparr>) \<and>
           history d' = history d \<and> lastReset d' = today w"
proof -
  have s: "stored w = d" using assms(1) by (rule stored_Some)
  have e: "filter completed (tasks d) = []"
    using assms(3) by (simp add: filter_empty_conv)
  define d' where "d' = \<lparr>tasks = map clearCompletion (tasks d), lastReset = today w,
      history = history d\<rparr>"
  have "checkDailyReset w = (True, w\<lparr>disk := Some d'\<rparr>)"
    using checkDailyReset_stale [of w] assms(2,4) e by (simp add: s d'_def)
  then show ?thesis
    by (intro exI [of _ d']) (simp add: d'_def)
qed

theorem rollover_without_completed_tasks_witness:
  "disk quietWorld = Some quietDay \<and> lastReset quietDay \<noteq> today quietWorld \<and>
   tasks quietDay = [task2] \<and> \<not> completed task2 \<and> writable quietWorld \<and>
   (\<exists>d'. checkDailyReset quietWorld = (True, quietWorld\<lparr>disk := Some d'\<rparr>) \<and>
      history d' = history quietDay \<and> lastReset d' = today quietWorld)"
  using rollover_without_completed_tasks [where w = quietWorld and d = quietDay]
  by (simp add: today_examples disk_examples writable_examples document_examples)

text \<open>
  C6. A rollover drops no task: the task list it writes has the same tasks in the same
  order, each one with \<open>completed = False\<close> and no \<open>completedAt\<close>, and with its id, title,
  description, priority and \<open>createdAt\<close> unchanged.
\<close>

theorem rollover_keeps_every_task:
  assumes "disk w = Some d" and "lastReset d \<noteq> today w" and "writable w"
  shows "\<exists>d'. checkDailyReset w = (True, w\<lparr>disk := Some d'\<rparr>) \<and>
           tasks d' = map (\<lambda>t. t\<lparr>completed := False, completedAt := None\<rparr>) (tasks d) \<and>
           length (tasks d') = length (tasks d) \<and>
           (\<forall>i < length (tasks d).
              \<not> completed (tasks d' ! i) \<and> completedAt (tasks d' ! i) = None \<and>
              id' (tasks d' ! i) = id' (tasks d ! i) \<and>
              title (tasks d' ! i) = title (tasks d ! i) \<and>
              description (tasks d' ! i) = description (tasks d ! i) \<and>
              priority (tasks d' ! i) = priority (tasks d ! i) \<and>
              createdAt (tasks d' ! i) = createdAt (tasks d ! i))"
proof -
  have s: "stored w = d" using assms(1) by (rule stored_Some)
  have c: "clearCompletion = (\<lambda>t. t\<lparr>completed := False, completedAt := None\<rparr>)"
    by (rule ext) (simp add: clearCompletion_def)
  define h' where "h' = history d @
      (if filter completed (tasks d) = [] then []
       else [\<lparr>date = lastReset d,
              completedTasks = map clearCompletion (filter completed (tasks d)),
              totalTasks = length (tasks d),
              completedCount = length (filter completed (tasks d))\<rparr>])"
  define d' where "d' = \<lparr>tasks = map clearCompletion (tasks d), lastReset = today w,
      history = h'\<rparr>"
  have "checkDailyReset w = (True, w\<lparr>disk := Some d'\<rparr>)"
    using checkDailyReset_stale [of w] assms(2,3) by (simp add: s d'_def h'_def)
  then show ?thesis
    by (intro exI [of _ d']) (simp add: d'_def c)
qed

theorem rollover_keeps_every_task_witness:
  "disk staleWorld = Some dayOne \<and> lastReset dayOne \<noteq> today staleWorld \<and> writable staleWorld \<and>
   (\<exists>d'. checkDailyReset staleWorld = (True, staleWorld\<lparr>disk := Some d'\<rparr>) \<and>
      tasks d' = map (\<lambda>t. t\<lparr>completed := False, completedAt := None\<rparr>) (tasks dayOne) \<and>
      length (tasks d') = length (tasks dayOne) \<and>
      (\<forall>i < length (tasks dayOne).
         \<not> completed (tasks d' ! i) \<and> completedAt (tasks d' ! i) = None \<and>
         id' (tasks d' ! i) = id' (tasks dayOne ! i) \<and>
         title (tasks d' ! i) = title (tasks dayOne ! i) \<and>
         description (tasks d' ! i) = description (tasks dayOne ! i) \<and>
         priority (tasks d' ! i) = priority (tasks dayOne ! i) \<and>
         createdAt (tasks d' ! i) = createdAt (tasks dayOne ! i)))"
  using rollover_keeps_every_task [where w = staleWorld and d = dayOne]
  by (simp add: today_examples disk_examples writable_examples document_examples)

text \<open>
  C7. For a creation with a title that is not empty after trimming, and a save that goes
  through: the handler answers 201 with the new task, which has \<open>completed = False\<close>, no
  \<open>completedAt\<close> and the decimal millisecond count of the clock as its id. The task is
  appended to the task list that the rollover check of the handler leaves: the stored
  tasks as they are when \<open>lastReset\<close> is today, and otherwise the stored tasks with their
  completion fields cleared. The new id differs from the ids of these tasks exactly when
  no stored task carries this millisecond count as its id; the handler makes no such check.
\<close>

theorem create_appends_task_with_timestamp_id:
  assumes "title_in b = Some t" and "trim t \<noteq> []" and "writable w"
  shows "\<exists>nt ts.
           post_tasks b w =
             ((201, TaskJson nt),
              (snd (checkDailyReset w))\<lparr>disk := Some
                ((stored (snd (checkDailyReset w)))\<lparr>tasks := ts @ [nt]\<rparr>)\<rparr>) \<and>
           ts = tasks (stored (snd (checkDailyReset w))) \<and>
           ts = (if lastReset (stored w) = today w then tasks (stored w)
                 else map (\<lambda>x. x\<lparr>completed := False, completedAt := None\<rparr>) (tasks (stored w))) \<and>
           nt = \<lparr>id' = toString (epochMs (now w)),
                 title = trim t,
                 description = (case description_in b of None \<Rightarrow> [] | Some s \<Rightarrow> trim s),
                 priority = (case priority_in b of None \<Rightarrow> ''medium'' | Some p \<Rightarrow> p),
                 completed = False,
                 createdAt = isoString (now w),
                 completedAt = None\<rparr> \<and>
           (id' nt \<notin> id' ` set ts \<longleftrightarrow>
              toString (epochMs (now w)) \<notin> id' ` set (tasks (stored w)))"
proof -
  define w1 where "w1 = snd (checkDailyReset w)"
  define nt where "nt =
     \<lparr>id' = toString (epochMs (now w)), title = trim t,
      description = (case description_in b of None \<Rightarrow> [] | Some s \<Rightarrow> trim s),
      priority = (case priority_in b of None \<Rightarrow> ''medium'' | Some p \<Rightarrow> p),
      completed = False, createdAt = isoString (now w), completedAt = None\<rparr>"
  define ts where "ts = tasks (stored w1)"
  have fr: "now w1 = now w" "writable w1"
    using checkDailyReset_frame [of w] assms(3) by (simp_all add: w1_def)
  have ne: "t \<noteq> []" using assms(2) by (auto simp: trim_def)
  have ds: "(case description_in b of None \<Rightarrow> [] | Some s \<Rightarrow> if s = [] then [] else trim s)
            = (case description_in b of None \<Rightarrow> [] | Some s \<Rightarrow> trim s)"
    by (simp add: trim_Nil split: option.split)
  have p: "post_tasks b w =
             ((201, TaskJson nt), w1\<lparr>disk := Some ((stored w1)\<lparr>tasks := ts @ [nt]\<rparr>)\<rparr>)"
    using assms(1,2) ne fr stringify_push [of w1 nt]
    by (simp add: post_tasks_def Let_def split_beta w1_def [symmetric] alloc_def writeTasks_def
        ds nt_def [symmetric] ts_def)
  have c: "clearCompletion = (\<lambda>x. x\<lparr>completed := False, completedAt := None\<rparr>)"
    by (rule ext) (simp add: clearCompletion_def)
  have q: "ts = (if lastReset (stored w) = today w then tasks (stored w)
                 else map (\<lambda>x. x\<lparr>completed := False, completedAt := None\<rparr>) (tasks (stored w)))"
  proof (cases "lastReset (stored w) = today w")
    case True
    then show ?thesis by (simp add: ts_def w1_def checkDailyReset_same_day)
  next
    case False
    then show ?thesis using assms(3)
      by (simp add: ts_def w1_def checkDailyReset_stale stored_eq c)
  qed
  have i: "id' ` set ts = id' ` set (tasks (stored w))"
    by (simp add: q image_image)
  have n: "id' nt = toString (epochMs (now w))" by (simp add: nt_def)
  show ?thesis
    unfolding w1_def [symmetric]
    apply (intro exI [of _ nt] exI [of _ ts] conjI)
        apply (rule p)
       apply (rule ts_def)
      apply (rule q)
     apply (rule nt_def)
    apply (simp add: i n)
    done
qed


text \<open>
  A creation on the morning after, where the two stored tasks are cleared first and the
  new id is none of theirs; and a creation in the millisecond of an earlier one, on the
  same day, where the stored task is left as it is and the new id is its id.
\<close>

theorem create_appends_task_with_timestamp_id_witness:
  "title_in milkBody = Some '' Buy milk '' \<and> trim '' Buy milk '' = ''Buy milk'' \<and>
   writable staleWorld \<and>
   tasks (stored staleWorld) = [task1, task2] \<and>
   lastReset (stored staleWorld) = ''2024-01-01'' \<and> today staleWorld = ''2024-01-02'' \<and>
   post_tasks milkBody staleWorld =
     ((201, TaskJson milkTask),
      staleWorld\<lparr>disk := Some
        \<lparr>tasks = [task1\<lparr>completed := False, completedAt := None\<rparr>, task2, milkTask],
         lastReset = ''2024-01-02'',
         history =
           [\<lparr>date = ''2024-01-01'',
             completedTasks = [task1\<lparr>completed := False, completedAt := None\<rparr>],
             totalTasks = 2, completedCount = 1\<rparr>]\<rparr>\<rparr>) \<and>
   id' milkTask \<notin> id' ` set [task1\<lparr>completed := False, completedAt := None\<rparr>, task2] \<and>
   title_in breadBody = Some ''Buy bread'' \<and> trim ''Buy bread'' = ''Buy bread'' \<and>
   writable milkWorld \<and>
   tasks (stored milkWorld) = [milkTask] \<and>
   lastReset (stored milkWorld) = today milkWorld \<and>
   post_tasks breadBody milkWorld =
     ((201, TaskJson breadTask),
      milkWorld\<lparr>disk := Some
        \<lparr>tasks = [milkTask, breadTask], lastReset = ''2024-01-02'', history = []\<rparr>\<rparr>) \<and>
   id' breadTask \<in> id' ` set [milkTask]"
proof -
  have a: "\<exists>nt ts.
           post_tasks milkBody staleWorld =
             ((201, TaskJson nt),
              (snd (checkDailyReset staleWorld))\<lparr>disk := Some
                ((stored (snd (checkDailyReset staleWorld)))\<lparr>tasks := ts @ [nt]\<rparr>)\<rparr>) \<and>
           ts = tasks (stored (snd (checkDailyReset staleWorld))) \<and>
           ts = (if lastReset (stored staleWorld) = today staleWorld then tasks (stored staleWorld)
                 else map (\<lambda>x. x\<lparr>completed := False, completedAt := None\<rparr>)
                        (tasks (stored staleWorld))) \<and>
           nt = \<lparr>id' = toString (epochMs (now staleWorld)),
                 title = trim '' Buy milk '',
                 description = (case description_in milkBody of None \<Rightarrow> [] | Some s \<Rightarrow> trim s),
                 priority = (case priority_in milkBody of None \<Rightarrow> ''medium'' | Some p \<Rightarrow> p),
                 completed = False,
                 createdAt = isoString (now staleWorld),
                 completedAt = None\<rparr> \<and>
           (id' nt \<notin> id' ` set ts \<longleftrightarrow>
              toString (epochMs (now staleWorld)) \<notin> id' ` set (tasks (stored staleWorld)))"
    by (rule create_appends_task_with_timestamp_id) (simp_all add: milk_facts stale_facts)
  have b: "\<exists>nt ts.
           post_tasks breadBody milkWorld =
             ((201, TaskJson nt),
              (snd (checkDailyReset milkWorld))\<lparr>disk := Some
                ((stored (snd (checkDailyReset milkWorld)))\<lparr>tasks := ts @ [nt]\<rparr>)\<rparr>) \<and>
           ts = tasks (stored (snd (checkDailyReset milkWorld))) \<and>
           ts = (if lastReset (stored milkWorld) = today milkWorld then tasks (stored milkWorld)
                 else map (\<lambda>x. x\<lparr>completed := False, completedAt := None\<rparr>)
                        (tasks (stored milkWorld))) \<and>
           nt = \<lparr>id' = toString (epochMs (now milkWorld)),
                 title = trim ''Buy bread'',
                 description = (case description_in breadBody of None \<Rightarrow> [] | Some s \<Rightarrow> trim s),
                 priority = (case priority_in breadBody of None \<Rightarrow> ''medium'' | Some p \<Rightarrow> p),
                 completed = False,
                 createdAt = isoString (now milkWorld),
                 completedAt = None\<rparr> \<and>
           (id' nt \<notin> id' ` set ts \<longleftrightarrow>
              toString (epochMs (now milkWorld)) \<notin> id' ` set (tasks (stored milkWorld)))"
    by (rule create_appends_task_with_timestamp_id) (simp_all add: milk_facts milkWorld_facts)
  have sw: "stored (staleWorld\<lparr>disk := Some d\<rparr>) = d" for d
    by (simp add: stored_eq)
  have a': "post_tasks milkBody staleWorld =
     ((201, TaskJson milkTask),
      staleWorld\<lparr>disk := Some
        \<lparr>tasks = [task1\<lparr>completed := False, completedAt := None\<rparr>, task2, milkTask],
         lastReset = ''2024-01-02'',
         history =
           [\<lparr>date = ''2024-01-01'',
             completedTasks = [task1\<lparr>completed := False, completedAt := None\<rparr>],
             totalTasks = 2, completedCount = 1\<rparr>]\<rparr>\<rparr>)"
    using a
    by (simp add: milk_facts stale_facts sw instant_facts toString_nextMorning milkTask_def)
  have a'': "id' milkTask \<notin> id' ` set [task1\<lparr>completed := False, completedAt := None\<rparr>, task2]"
    using a
    by (simp add: milk_facts stale_facts sw instant_facts toString_nextMorning milkTask_def
        document_examples today_examples task1_def task2_def)
  have b': "post_tasks breadBody milkWorld =
     ((201, TaskJson breadTask),
      milkWorld\<lparr>disk := Some
        \<lparr>tasks = [milkTask, breadTask], lastReset = ''2024-01-02'', history = []\<rparr>\<rparr>)"
    using b
    by (simp add: milk_facts milkWorld_facts instant_facts toString_nextMorning breadTask_def)
  have b'': "id' breadTask \<in> id' ` set [milkTask]"
    using b
    by (simp add: milk_facts milkWorld_facts instant_facts toString_nextMorning breadTask_def
        milkTask_def)
  show ?thesis
    using a' a'' b' b''
    by (simp add: milk_facts stale_facts milkWorld_facts document_examples today_examples)
qed

text \<open>
  Against C7 as it is written. Two creations within the millisecond 1704182400000 get the
  same id, so the second task's id is the id of a task already in the list. And a creation
  on the morning after changes the existing task 1: the rollover check clears it first.
\<close>

theorem create_same_millisecond_counterexample:
  "post_tasks breadBody (snd (post_tasks milkBody emptyWorld)) =
     ((201, TaskJson breadTask),
      emptyWorld\<lparr>disk := Some
        \<lparr>tasks = [milkTask, breadTask], lastReset = ''2024-01-02'', history = []\<rparr>\<rparr>)
   \<and> id' breadTask = id' milkTask
   \<and> tasks (stored (snd (post_tasks milkBody staleWorld)))
       = [task1\<lparr>completed := False, completedAt := None\<rparr>, task2, milkTask]
   \<and> task1\<lparr>completed := False, completedAt := None\<rparr> \<noteq> task1"
  by (simp add: eval_defs example_defs milkBody_def milkTask_def breadBody_def breadTask_def
      toString_nextMorning stored_def)

text \<open>
  C8. Every task should have a non-empty trimmed title at all times, update included. The
  creation handler rejects a blank title; the update handler trims the new title and stores
  it without that check, so a title of three spaces leaves task 2 with the empty title.
\<close>

theorem update_stores_empty_title:
  "put_task ''2'' blankTitleBody sameDayWorld =
     ((200, TaskJson (task2\<lparr>title := []\<rparr>)),
      sameDayWorld\<lparr>disk := Some
        \<lparr>tasks = [task1, task2\<lparr>title := []\<rparr>], lastReset = ''2024-01-01'', history = []\<rparr>\<rparr>)"
  by (simp add: eval_defs example_defs blankTitleBody_def)

text \<open>
  C9. A save that fails should reach the caller as an error, and the rollover check should
  not then signal that a reset was performed. \<^verbatim>\<open>checkDailyReset\<close> drops the result of
  \<^verbatim>\<open>writeTasks\<close>: with a file that cannot be written it answers \<open>True\<close> with the file as it
  was, and the list handler answers 200 with the tasks of the day before.
\<close>

theorem failed_save_reported_as_reset:
  "checkDailyReset readOnlyWorld = (True, readOnlyWorld)
   \<and> get_tasks readOnlyWorld =
       ((200, TaskList [task1, task2] ''2024-01-01'' ''2024-01-02''), readOnlyWorld)"
  by (simp add: eval_defs example_defs)

text \<open>
  C10. When the file is absent or cannot be read or parsed, \<^verbatim>\<open>readTasks\<close> returns a new
  document with no tasks, no history and today's date as \<open>lastReset\<close>; it has no error
  result.
\<close>

theorem load_degrades_to_fresh_document:
  "disk w = None \<Longrightarrow>
   readTasks w = (\<lparr>tasks = [], lastReset = today w, history = []\<rparr>, []) \<and>
   stored w = \<lparr>tasks = [], lastReset = today w, history = []\<rparr>"
  by (simp add: readTasks_def stored_eq)

theorem load_degrades_to_fresh_document_witness:
  "disk noFileWorld = None \<and>
   readTasks noFileWorld = (\<lparr>tasks = [], lastReset = ''2024-01-02'', history = []\<rparr>, []) \<and>
   stored noFileWorld = \<lparr>tasks = [], lastReset = ''2024-01-02'', history = []\<rparr>"
  using load_degrades_to_fresh_document [where w = noFileWorld]
  by (simp add: disk_examples today_examples)

end
